theory Spec2Isabelle
  imports Main
begin

section \<open>The real-time notification client of static/js/main.js\<close>

text \<open>
  The class \<open>RealTimeNotifications\<close> keeps a WebSocket to the server, reconnects with an
  exponential backoff, mirrors the unread count and renders a badge, a dropdown list and
  toasts. The model below passes the whole state explicitly: the fields of the object
  (\<open>this.socket\<close>, \<open>this.notificationCount\<close>, ...), the WebSocket objects the page has
  constructed, the pending reconnect timers, the messages sent and the part of the
  document the methods read and write.

  Numbers are JavaScript numbers in the source, that is IEEE doubles. The unread count
  holds an integer (a \<open>notification_count\<close> message may carry any), so
  \<open>notificationCount\<close> is an \<open>int\<close>, and \<open>++\<close> and \<open>--\<close> on it give the exact result
  rounded to the nearest double (\<open>round_double\<close> below): beyond \<open>2 ^ 53\<close> not every
  integer is a double. The reconnect counters start at 0, are only incremented and never
  pass 5: they are \<open>nat\<close>. Delays are in milliseconds, as in the source: the base delay
  is 1000.
\<close>

subsection \<open>Data\<close>

datatype readyState = CONNECTING | OPEN | CLOSING | CLOSED

record websocket =
  url :: string
  readyState :: readyState

text \<open>A notification as the server sends it; \<open>ntype\<close> is its \<open>type\<close> field, \<open>nid\<close> its \<open>id\<close>.\<close>

record notification =
  nid :: string
  ntype :: string
  content :: string
  created_at :: string
  related_id :: "string option"

text \<open>
  Inbound messages, by their \<open>type\<close> field, and the one outbound message. A message is
  the object \<open>JSON.parse\<close> returns, with the payload its type announces; any other value
  of \<open>type\<close> is \<open>Unrecognized\<close>.
\<close>

datatype message =
    Notification_count int
  | New_notification notification
  | Notification_read string
  | Unrecognized string

datatype outbound = Mark_read string

text \<open>
  A \<open>classList\<close> is the ordered set of class names of an element: \<open>add\<close> appends a name
  that is absent, \<open>remove\<close> deletes it.
\<close>

type_synonym classList = "string list"

definition classList_add :: "string \<Rightarrow> classList \<Rightarrow> classList" where
  "classList_add c cs = (if c \<in> set cs then cs else cs @ [c])"

definition classList_remove :: "string \<Rightarrow> classList \<Rightarrow> classList" where
  "classList_remove c cs = removeAll c cs"

text \<open>A badge or a status indicator: its classes, its text and its \<open>style.display\<close>.\<close>

record element =
  classList :: classList
  textContent :: string
  display :: string

text \<open>
  An entry of the dropdown, the element built by \<open>addToNotificationDropdown\<close>: its classes
  (\<open>notification-item unread\<close> when created), its \<open>data-notification-id\<close> attribute, the
  classes of the icon \<open>div\<close> inside it (\<open>notification-icon\<close> followed by the type of the
  notification; \<open>None\<close> once that \<open>div\<close> has been removed) and the notification the
  markup was rendered from. The classes of the other elements inside an entry do not
  depend on the notification.
\<close>

record item =
  item_classList :: classList
  notificationId :: string
  icon :: "classList option"
  rendered :: notification

text \<open>
  The client. \<open>sockets\<close> holds every WebSocket object constructed so far, a socket
  being identified by its position; \<open>socket\<close> is the reference \<open>this.socket\<close> (\<open>None\<close>
  is \<open>null\<close>). \<open>timers\<close> are the delays of the pending \<open>setTimeout\<close> calls of
  \<open>scheduleReconnect\<close>, \<open>sent\<close> the messages handed to \<open>socket.send\<close> with the socket
  they went to. \<open>dropdown\<close> is the list of \<open>.notification-item\<close> elements of the
  \<open>.notification-dropdown-menu\<close> container that are its children, in document order,
  \<open>None\<close> when the page has no such container. \<open>permission\<close> is \<open>Notification.permission\<close>, \<open>None\<close> when the
  browser has no Notification API.
\<close>

record client =
  socket :: "nat option"
  notificationCount :: int
  isConnected :: bool
  reconnectAttempts :: nat
  maxReconnectAttempts :: nat
  reconnectDelay :: nat
  sockets :: "websocket list"
  timers :: "nat list"
  sent :: "(nat \<times> outbound) list"
  location_protocol :: string
  location_host :: string
  badges :: "element list"
  indicators :: "element list"
  dropdown :: "item list option"
  title :: string
  toasts :: "notification list"
  sounds :: nat
  permission :: "string option"
  browserNotifications :: "notification list"

text \<open>
  What a handler leaves behind: it returns, or an exception leaves it, in both cases with
  the state reached so far, since nothing is undone.
\<close>

datatype error = SyntaxError

datatype outcome = Returns client | Throws error client

fun state_after :: "outcome \<Rightarrow> client" where
  "state_after (Returns s) = s"
| "state_after (Throws e s) = s"

subsection \<open>Arithmetic on the unread count\<close>

function bit_length :: "int \<Rightarrow> nat" where
  "bit_length x = (if x \<le> 0 then 0 else Suc (bit_length (x div 2)))"
  by pat_completeness auto
termination
  by (relation "measure nat") auto

declare bit_length.simps [simp del]

text \<open>
  The double nearest to an integer, ties to the even significand: an integer of more
  than 53 bits is rounded to a multiple of \<open>2 ^ e\<close>, \<open>e\<close> being the bits in excess.
  (Integers are finite doubles up to \<open>2 ^ 1024\<close>; the counts here stay far below.)
\<close>

definition round_double :: "int \<Rightarrow> int" where
  "round_double x =
     (let q = 2 ^ (bit_length \<bar>x\<bar> - 53);
          lo = (x div q) * q;
          r = x - lo
      in if 2 * r < q then lo
         else if q < 2 * r then lo + q
         else if even (x div q) then lo else lo + q)"

subsection \<open>Rendering a number\<close>

definition digit_char :: "nat \<Rightarrow> char" where
  "digit_char d = ''0123456789'' ! (d mod 10)"

fun string_of_nat :: "nat \<Rightarrow> string" where
  "string_of_nat n =
     (if n < 10 then [digit_char n] else string_of_nat (n div 10) @ [digit_char (n mod 10)])"

declare string_of_nat.simps [simp del]

text \<open>
  What JavaScript prints for an integer, as in \<open>badge.textContent = count\<close> (below
  \<open>10 ^ 21\<close>, where the exponent notation begins).
\<close>

definition toString :: "int \<Rightarrow> string" where
  "toString c = (if c < 0 then ''-'' @ string_of_nat (nat (- c)) else string_of_nat (nat c))"

subsection \<open>The page title\<close>

definition is_digit :: "char \<Rightarrow> bool" where
  "is_digit c = (c \<in> set ''0123456789'')"

definition is_space :: "char \<Rightarrow> bool" where
  "is_space c = (c \<in> {CHR '' '', CHR 0x09, CHR 0x0A, CHR 0x0B, CHR 0x0C, CHR 0x0D})"

text \<open>
  \<open>title.replace(/^\(\d+\)\s/, '')\<close>: a leading \<open>(\<close>, one or more digits, \<open>)\<close> and one
  whitespace character are dropped; a title of another shape is kept. Of the characters
  \<open>\s\<close> matches, the ASCII ones are modelled.
\<close>

definition strip_count :: "string \<Rightarrow> string" where
  "strip_count t =
     (case t of
        [] \<Rightarrow> t
      | c # r \<Rightarrow>
          if c = CHR ''('' \<and> takeWhile is_digit r \<noteq> [] then
            (case dropWhile is_digit r of
               p # w # rest \<Rightarrow> if p = CHR '')'' \<and> is_space w then rest else t
             | _ \<Rightarrow> t)
          else t)"

subsection \<open>updateNotificationCount and updateConnectionStatus\<close>

definition update_badge :: "int \<Rightarrow> element \<Rightarrow> element" where
  "update_badge count badge =
     (if count > 0 then
        badge\<lparr>textContent := (if count > 99 then ''99+'' else toString count),
              display := ''inline-block'',
              classList := classList_add ''animate-pulse'' (classList badge)\<rparr>
      else
        badge\<lparr>display := ''none'',
              classList := classList_remove ''animate-pulse'' (classList badge)\<rparr>)"

definition updateNotificationCount :: "int \<Rightarrow> client \<Rightarrow> client" where
  "updateNotificationCount count s =
     s\<lparr>notificationCount := count,
       badges := map (update_badge count) (badges s),
       title := (if count > 0 then ''('' @ toString count @ '') '' @ strip_count (title s)
                 else strip_count (title s))\<rparr>"

definition update_indicator :: "bool \<Rightarrow> element \<Rightarrow> element" where
  "update_indicator connected indicator =
     (if connected then
        indicator\<lparr>classList := classList_add ''text-success''
                                (classList_remove ''text-danger'' (classList indicator)),
                  textContent := ''Connected''\<rparr>
      else
        indicator\<lparr>classList := classList_add ''text-danger''
                                (classList_remove ''text-success'' (classList indicator)),
                  textContent := ''Disconnected''\<rparr>)"

definition updateConnectionStatus :: "bool \<Rightarrow> client \<Rightarrow> client" where
  "updateConnectionStatus connected s =
     s\<lparr>indicators := map (update_indicator connected) (indicators s)\<rparr>"

subsection \<open>Connecting and reconnecting\<close>

text \<open>
  \<open>scheduleReconnect\<close>: below the maximum, the counter is incremented first and the
  delay computed from the incremented counter; the timer is recorded in \<open>timers\<close>.
\<close>

definition scheduleReconnect :: "client \<Rightarrow> client" where
  "scheduleReconnect s =
     (if reconnectAttempts s < maxReconnectAttempts s then
        (let s1 = s\<lparr>reconnectAttempts := reconnectAttempts s + 1\<rparr>;
             delay = reconnectDelay s1 * 2 ^ (reconnectAttempts s1 - 1)
         in s1\<lparr>timers := timers s1 @ [delay]\<rparr>)
      else s)"

text \<open>\<open>this.socket && this.socket.readyState === WebSocket.OPEN\<close>\<close>

definition socket_is_open :: "client \<Rightarrow> bool" where
  "socket_is_open s =
     (case socket s of
        None \<Rightarrow> False
      | Some i \<Rightarrow> i < length (sockets s) \<and> readyState (sockets s ! i) = OPEN)"

definition wsUrl :: "client \<Rightarrow> string" where
  "wsUrl s =
     (if location_protocol s = ''https:'' then ''wss:'' else ''ws:'')
       @ ''//'' @ location_host s @ ''/ws/notifications/''"

text \<open>
  \<open>connectWebSocket\<close>. Whether \<open>new WebSocket(wsUrl)\<close> throws is decided by the browser
  and is the first argument. When it throws, \<open>this.socket\<close> keeps its old value and the
  \<open>catch\<close> block schedules a reconnect. Otherwise the new object, in state CONNECTING,
  becomes \<open>this.socket\<close>; its four handlers are the functions \<open>onopen\<close>, \<open>onmessage\<close>,
  \<open>onclose\<close> and \<open>onerror\<close> below, which act on the client and not on the socket
  they were attached to.
\<close>

definition connectWebSocket :: "bool \<Rightarrow> client \<Rightarrow> client" where
  "connectWebSocket throws s =
     (if socket_is_open s then s
      else if throws then scheduleReconnect s
      else s\<lparr>socket := Some (length (sockets s)),
             sockets := sockets s @ [\<lparr>url = wsUrl s, readyState = CONNECTING\<rparr>]\<rparr>)"

definition onopen :: "client \<Rightarrow> client" where
  "onopen s =
     updateConnectionStatus True
       (s\<lparr>isConnected := True, reconnectAttempts := 0, reconnectDelay := 1000\<rparr>)"

definition onclose :: "client \<Rightarrow> client" where
  "onclose s = scheduleReconnect (updateConnectionStatus False (s\<lparr>isConnected := False\<rparr>))"

definition onerror :: "client \<Rightarrow> client" where
  "onerror s = updateConnectionStatus False (s\<lparr>isConnected := False\<rparr>)"

subsection \<open>Message handlers\<close>

text \<open>
  The two lookup tables, for the types that are not names of properties every object
  inherits (\<open>constructor\<close>, \<open>toString\<close> and the like, which the lookup would find).
\<close>

definition getNotificationIcon :: "string \<Rightarrow> string" where
  "getNotificationIcon t =
     (if t = ''new_job_posting'' then ''fas fa-briefcase''
      else if t = ''application_update'' then ''fas fa-file-alt''
      else if t = ''interview_scheduled'' then ''fas fa-calendar-check''
      else if t = ''system'' then ''fas fa-cog''
      else if t = ''message'' then ''fas fa-envelope''
      else ''fas fa-bell'')"

definition getNotificationTitle :: "string \<Rightarrow> string" where
  "getNotificationTitle t =
     (if t = ''new_job_posting'' then ''New Job Alert''
      else if t = ''application_update'' then ''Application Update''
      else if t = ''interview_scheduled'' then ''Interview Scheduled''
      else if t = ''system'' then ''System Notification''
      else if t = ''message'' then ''New Message''
      else ''Notification'')"

definition showNotificationToast :: "notification \<Rightarrow> client \<Rightarrow> client" where
  "showNotificationToast n s = s\<lparr>toasts := toasts s @ [n]\<rparr>"

definition playNotificationSound :: "client \<Rightarrow> client" where
  "playNotificationSound s = s\<lparr>sounds := sounds s + 1\<rparr>"

definition showBrowserNotification :: "notification \<Rightarrow> client \<Rightarrow> client" where
  "showBrowserNotification n s =
     (if permission s = Some ''granted''
      then s\<lparr>browserNotifications := browserNotifications s @ [n]\<rparr> else s)"

text \<open>
  The markup of an entry is built as a string and assigned to \<open>innerHTML\<close>, with the type
  inside the \<open>class\<close> attribute of the icon \<open>div\<close> and the content as the body of the text
  \<open>div\<close>. The class attribute is split at HTML whitespace, so a type of several words
  gives the icon several classes. The model renders the type and the content as that
  attribute value and as text, which is what the HTML parser does with strings that hold
  none of \<open><\<close>, \<open>&\<close>, the double quote and NUL (\<open>markup_free\<close>); the statements about
  the list below are about such notifications.
\<close>

definition is_html_space :: "char \<Rightarrow> bool" where
  "is_html_space c = (c \<in> {CHR '' '', CHR 0x09, CHR 0x0A, CHR 0x0C, CHR 0x0D})"

fun split_classes :: "string \<Rightarrow> string \<Rightarrow> string list" where
  "split_classes acc [] = (if acc = [] then [] else [acc])"
| "split_classes acc (c # cs) =
     (if is_html_space c
      then (if acc = [] then split_classes [] cs else acc # split_classes [] cs)
      else split_classes (acc @ [c]) cs)"

definition class_tokens :: "string \<Rightarrow> string list" where
  "class_tokens v = split_classes [] v"

definition markup_free :: "string \<Rightarrow> bool" where
  "markup_free v = (set v \<inter> {CHR ''<'', CHR ''&'', CHR 0x22, CHR 0x00} = {})"

definition new_item :: "notification \<Rightarrow> item" where
  "new_item n =
     \<lparr>item_classList = [''notification-item'', ''unread''], notificationId = nid n,
      icon = Some (class_tokens (''notification-icon '' @ ntype n)), rendered = n\<rparr>"

text \<open>
  \<open>dropdown.querySelectorAll('.notification-item')\<close> finds, in document order, every
  element under the container that has the class: for each entry the entry itself, then
  its icon \<open>div\<close> when the type gave it the class. \<open>match_count\<close> is the length of that
  list and \<open>remove_last_match\<close> removes its last element: the icon of the last entry that
  matches, or else that entry with all it contains.
\<close>

definition outer_matches :: "item \<Rightarrow> bool" where
  "outer_matches x = (''notification-item'' \<in> set (item_classList x))"

definition icon_matches :: "item \<Rightarrow> bool" where
  "icon_matches x =
     (case icon x of None \<Rightarrow> False | Some cs \<Rightarrow> ''notification-item'' \<in> set cs)"

definition matches :: "item \<Rightarrow> nat" where
  "matches x = (if outer_matches x then 1 else 0) + (if icon_matches x then 1 else 0)"

definition match_count :: "item list \<Rightarrow> nat" where
  "match_count xs = sum_list (map matches xs)"

fun remove_last_match :: "item list \<Rightarrow> item list" where
  "remove_last_match [] = []"
| "remove_last_match (x # xs) =
     (if 0 < match_count xs then x # remove_last_match xs
      else if icon_matches x then x\<lparr>icon := None\<rparr> # xs
      else if outer_matches x then xs
      else x # xs)"

text \<open>
  \<open>addToNotificationDropdown\<close>: nothing without the container; otherwise the new element
  goes before the first child and, when more than 10 elements with the class
  \<open>notification-item\<close> are then found, the last of them is removed.
\<close>

definition addToNotificationDropdown :: "notification \<Rightarrow> client \<Rightarrow> client" where
  "addToNotificationDropdown n s =
     (case dropdown s of
        None \<Rightarrow> s
      | Some old \<Rightarrow>
          (let items = new_item n # old
           in s\<lparr>dropdown :=
                 Some (if match_count items > 10 then remove_last_match items else items)\<rparr>))"

text \<open>
  \<open>removeFromNotificationDropdown\<close> builds the selector
  \<open>[data-notification-id="\<close> id \<open>"]\<close> with the id as it came. When the id holds no
  double quote, backslash, line feed, carriage return, form feed or NUL
  (\<open>selector_ok\<close>), the text is that one attribute selector and \<open>querySelector\<close> yields
  the first element in document order whose \<open>data-notification-id\<close> is the id, or
  \<open>null\<close>; that element loses the class \<open>unread\<close> and gains \<open>read\<close>. The elements that
  carry the attribute are the entries of the dropdown. With a double quote in the id the
  string of the selector ends early: for the id \<open>n"1\<close> the text is
  \<open>[data-notification-id="n"1"]\<close>, which is no selector, and \<open>querySelector\<close> throws a
  SyntaxError before any class is touched. The model throws for every id that is not
  \<open>selector_ok\<close>; for some of them (an escape, an id that itself continues the
  selector) the browser finds the text well-formed, and the statements below do not
  depend on the outcome there.
\<close>

definition selector_ok :: "string \<Rightarrow> bool" where
  "selector_ok i =
     (set i \<inter> {CHR 0x22, CHR 0x5C, CHR 0x0A, CHR 0x0D, CHR 0x0C, CHR 0x00} = {})"

definition mark_read_class :: "item \<Rightarrow> item" where
  "mark_read_class it =
     it\<lparr>item_classList := classList_add ''read'' (classList_remove ''unread'' (item_classList it))\<rparr>"

fun mark_first :: "string \<Rightarrow> item list \<Rightarrow> item list" where
  "mark_first i [] = []"
| "mark_first i (x # xs) =
     (if notificationId x = i then mark_read_class x # xs else x # mark_first i xs)"

definition removeFromNotificationDropdown :: "string \<Rightarrow> client \<Rightarrow> outcome" where
  "removeFromNotificationDropdown i s =
     (if \<not> selector_ok i then Throws SyntaxError s
      else Returns
        (case dropdown s of
           None \<Rightarrow> s
         | Some items \<Rightarrow> s\<lparr>dropdown := Some (mark_first i items)\<rparr>))"

definition handleNewNotification :: "notification \<Rightarrow> client \<Rightarrow> outcome" where
  "handleNewNotification n s =
     (let s1 = s\<lparr>notificationCount := round_double (notificationCount s + 1)\<rparr>;
          s2 = updateNotificationCount (notificationCount s1) s1;
          s3 = showNotificationToast n s2;
          s4 = playNotificationSound s3;
          s5 = showBrowserNotification n s4
      in Returns (addToNotificationDropdown n s5))"

definition handleNotificationRead :: "string \<Rightarrow> client \<Rightarrow> outcome" where
  "handleNotificationRead i s =
     removeFromNotificationDropdown i
       (if notificationCount s > 0 then
          (let s1 = s\<lparr>notificationCount := round_double (notificationCount s - 1)\<rparr>
           in updateNotificationCount (notificationCount s1) s1)
        else s)"

fun handleMessage :: "message \<Rightarrow> client \<Rightarrow> outcome" where
  "handleMessage (Notification_count c) s = Returns (updateNotificationCount c s)"
| "handleMessage (New_notification n) s = handleNewNotification n s"
| "handleMessage (Notification_read i) s = handleNotificationRead i s"
| "handleMessage (Unrecognized t) s = Returns s"

text \<open>
  \<open>onmessage\<close>: an exception that leaves \<open>handleMessage\<close> leaves the handler too, and the
  browser reports it; the client goes on with the state the handler had reached.
\<close>

definition onmessage :: "message \<Rightarrow> client \<Rightarrow> outcome" where
  "onmessage m s = handleMessage m s"

text \<open>\<open>markAsRead\<close>: one \<open>send\<close> on the current socket when it is open, nothing otherwise.\<close>

definition markAsRead :: "string \<Rightarrow> client \<Rightarrow> client" where
  "markAsRead i s =
     (case socket s of
        None \<Rightarrow> s
      | Some k \<Rightarrow>
          if k < length (sockets s) \<and> readyState (sockets s ! k) = OPEN
          then s\<lparr>sent := sent s @ [(k, Mark_read i)]\<rparr> else s)"

text \<open>
  \<open>init\<close>: with a current user the client connects; \<open>setupUI\<close> and
  \<open>requestNotificationPermission\<close> prepare the page and ask for the permission, and
  the document and \<open>permission\<close> of the state are the page so prepared.
\<close>

definition init :: "bool \<Rightarrow> bool \<Rightarrow> client \<Rightarrow> client" where
  "init currentUserId throws s = (if currentUserId then connectWebSocket throws s else s)"

text \<open>
  The state the constructor leaves before it calls \<open>init\<close>, on a page that has made no
  socket, timer or send yet.
\<close>

definition constructed :: "client \<Rightarrow> bool" where
  "constructed s =
     (socket s = None \<and> notificationCount s = 0 \<and> \<not> isConnected s \<and>
      reconnectAttempts s = 0 \<and> maxReconnectAttempts s = 5 \<and> reconnectDelay s = 1000 \<and>
      sockets s = [] \<and> timers s = [] \<and> sent s = [])"

subsection \<open>The browser: events of a socket and of the timers\<close>

text \<open>
  The handlers run when the browser delivers an event. A socket that connects moves from
  CONNECTING to OPEN and fires \<open>open\<close>; a socket that is open, or closing, delivers
  messages; a socket that ends moves to CLOSED and fires \<open>close\<close>, after \<open>error\<close>
  when the connection failed; nothing is delivered for a closed socket. A pending timer
  fires by calling \<open>connectWebSocket\<close>. A click on an entry calls \<open>markAsRead\<close> with
  the id of the entry (the navigation that follows the click is not modelled).
\<close>

definition set_readyState :: "nat \<Rightarrow> readyState \<Rightarrow> client \<Rightarrow> client" where
  "set_readyState i r s = s\<lparr>sockets := (sockets s)[i := (sockets s ! i)\<lparr>readyState := r\<rparr>]\<rparr>"

definition state_of :: "client \<Rightarrow> nat \<Rightarrow> readyState option" where
  "state_of s i = (if i < length (sockets s) then Some (readyState (sockets s ! i)) else None)"

definition live :: "client \<Rightarrow> nat \<Rightarrow> bool" where
  "live s i = (state_of s i \<in> {Some CONNECTING, Some OPEN, Some CLOSING})"

definition remove_nth :: "nat \<Rightarrow> 'a list \<Rightarrow> 'a list" where
  "remove_nth k xs = take k xs @ drop (Suc k) xs"

datatype event =
    Opened nat
  | Message nat message
  | Closing nat
  | Closed nat
  | Failed nat
  | Timer nat bool
  | Click string

fun step :: "event \<Rightarrow> client \<Rightarrow> client option" where
  "step (Opened i) s =
     (if state_of s i = Some CONNECTING then Some (onopen (set_readyState i OPEN s)) else None)"
| "step (Message i m) s =
     (if state_of s i \<in> {Some OPEN, Some CLOSING}
      then Some (state_after (onmessage m s)) else None)"
| "step (Closing i) s =
     (if live s i then Some (set_readyState i CLOSING s) else None)"
| "step (Closed i) s =
     (if live s i then Some (onclose (set_readyState i CLOSED s)) else None)"
| "step (Failed i) s =
     (if live s i then Some (onclose (onerror (set_readyState i CLOSED s))) else None)"
| "step (Timer k throws) s =
     (if k < length (timers s)
      then Some (connectWebSocket throws (s\<lparr>timers := remove_nth k (timers s)\<rparr>)) else None)"
| "step (Click i) s = Some (markAsRead i s)"

fun run :: "event list \<Rightarrow> client \<Rightarrow> client option" where
  "run [] s = Some s"
| "run (e # es) s = (case step e s of None \<Rightarrow> None | Some s1 \<Rightarrow> run es s1)"

definition live_count :: "client \<Rightarrow> nat" where
  "live_count s = length (filter (\<lambda>w. readyState w \<noteq> CLOSED) (sockets s))"

subsection \<open>A run in which every connect attempt fails at once\<close>

text \<open>
  One connect attempt that fails immediately: the constructor throws, or the new socket
  fails (\<open>error\<close>, then \<open>close\<close>), or it is closed (\<open>close\<close> alone). The new socket
  is the one \<open>connectWebSocket\<close> has just appended.
\<close>

datatype failure = Constructor_throws | Connection_fails | Connection_closes

fun attempt :: "failure \<Rightarrow> client \<Rightarrow> client" where
  "attempt Constructor_throws s = connectWebSocket True s"
| "attempt Connection_fails s =
     (if socket_is_open s then s
      else onclose (onerror (set_readyState (length (sockets s)) CLOSED (connectWebSocket False s))))"
| "attempt Connection_closes s =
     (if socket_is_open s then s
      else onclose (set_readyState (length (sockets s)) CLOSED (connectWebSocket False s)))"

text \<open>
  The run: an attempt fails; when a timer is pending afterwards it fires (its delay is
  recorded) and the next attempt is made; when none is pending the run is over. The
  result is the delays of the timers that fired and the final state, whose \<open>timers\<close>
  holds the one still pending, if any.
\<close>

fun failing_run :: "failure list \<Rightarrow> client \<Rightarrow> nat list \<times> client" where
  "failing_run [] s = ([], s)"
| "failing_run [f] s = ([], attempt f s)"
| "failing_run (f # g # fs) s =
     (let s1 = attempt f s
      in case timers s1 of
           [] \<Rightarrow> ([], s1)
         | d # ds \<Rightarrow>
             (let (delays, s2) = failing_run (g # fs) (s1\<lparr>timers := ds\<rparr>)
              in (d # delays, s2)))"

text \<open>Every delay passed to \<open>setTimeout\<close> in the run, in order.\<close>

definition scheduled_delays :: "failure list \<Rightarrow> client \<Rightarrow> nat list" where
  "scheduled_delays fs s = (let (delays, s1) = failing_run fs s in delays @ timers s1)"

text \<open>Messages handled one after the other.\<close>

fun handleMessages :: "message list \<Rightarrow> client \<Rightarrow> client" where
  "handleMessages [] s = s"
| "handleMessages (m # ms) s = handleMessages ms (state_after (handleMessage m s))"


text \<open>The recent list: the entries of the dropdown, none when the page has no dropdown.\<close>

definition items_of :: "client \<Rightarrow> item list" where
  "items_of s = (case dropdown s of None \<Rightarrow> [] | Some xs \<Rightarrow> xs)"

subsection \<open>A page to run the client on\<close>

text \<open>
  The object as the constructor leaves it, on a page served over https whose navigation
  bar holds the bell that \<open>createNotificationBell\<close> inserts (one hidden badge, an empty
  dropdown) and one connection indicator.
\<close>

definition example_page :: client where
  "example_page =
     \<lparr>socket = None, notificationCount = 0, isConnected = False, reconnectAttempts = 0,
      maxReconnectAttempts = 5, reconnectDelay = 1000, sockets = [], timers = [], sent = [],
      location_protocol = ''https:'', location_host = ''hireo.test'',
      badges = [\<lparr>classList = [''notification-badge''], textContent = ''0'', display = ''none''\<rparr>],
      indicators = [\<lparr>classList = [''connection-status''], textContent = [], display = []\<rparr>],
      dropdown = Some [], title = ''Hireo'', toasts = [], sounds = 0,
      permission = Some ''default'', browserNotifications = []\<rparr>"

definition example_notification :: "string \<Rightarrow> notification" where
  "example_notification i =
     \<lparr>nid = i, ntype = ''message'', content = ''hi'', created_at = ''2024-01-01T00:00:00Z'',
      related_id = None\<rparr>"

text \<open>
  The example page once its first socket has opened; after two connect attempts that
  failed and whose timers have fired; and with three notifications \<open>n1\<close>, \<open>n2\<close>, \<open>n3\<close>
  received in that order. \<open>eleven\<close> are eleven notifications \<open>n1\<close> to \<open>n11\<close>.
\<close>

definition connected_page :: client where
  "connected_page = onopen (set_readyState 0 OPEN (connectWebSocket False example_page))"

definition two_failures :: client where
  "two_failures =
     (snd (failing_run [Connection_fails, Connection_fails] example_page))\<lparr>timers := []\<rparr>"


definition eleven :: "notification list" where
  "eleven =
     map example_notification
       [''n1'', ''n2'', ''n3'', ''n4'', ''n5'', ''n6'', ''n7'', ''n8'', ''n9'', ''n10'', ''n11'']"

text \<open>
  The example page with its sixth socket connecting after five failures, each followed by
  its timer (\<open>retry\<close>); the connected
  page after \<open>notification_count\<close> 3; the id \<open>n"1\<close> and the connected page after a
  notification that carries it; seventeen notifications whose type is the class name
  \<open>notification-item\<close>.
\<close>

definition retry :: "client \<Rightarrow> client" where
  "retry s = (attempt Connection_fails s)\<lparr>timers := []\<rparr>"

definition exhausted_page :: client where
  "exhausted_page =
     connectWebSocket False (retry (retry (retry (retry (retry example_page)))))"

definition counted_page :: client where
  "counted_page = updateNotificationCount 3 connected_page"

definition quoted_id :: string where
  "quoted_id = [CHR ''n'', CHR 0x22, CHR ''1'']"



text \<open>
  Notifications, entries and pages without markup. A notification is plain when its type
  and content are free of markup characters and its type does not hold the class name
  \<open>notification-item\<close>; an entry is plain when it has that class, its icon has not, and
  the notification it shows is free of markup characters; on a plain page the
  notifications shown in the entries and in the toasts are free of markup characters, so
  that the elements with the class \<open>notification-item\<close> and with the attribute
  \<open>data-notification-id\<close> are the ones the model holds.
\<close>

definition markup_free_notification :: "notification \<Rightarrow> bool" where
  "markup_free_notification n = (markup_free (ntype n) \<and> markup_free (content n))"




definition plain_page :: "client \<Rightarrow> bool" where
  "plain_page s =
     (list_all markup_free_notification (map rendered (items_of s)) \<and>
      list_all markup_free_notification (toasts s))"

text \<open>What is under way: the sockets not yet closed and the reconnect timers not yet fired.\<close>

definition pending :: "client \<Rightarrow> nat" where
  "pending s = live_count s + length (timers s)"

section \<open>Properties\<close>

subsection \<open>The badge\<close>

lemma string_of_nat_small: "n < 10 \<Longrightarrow> string_of_nat n = [digit_char n]"
  by (simp add: string_of_nat.simps)

lemma string_of_nat_two:
  "10 \<le> n \<Longrightarrow> n < 100 \<Longrightarrow> string_of_nat n = [digit_char (n div 10), digit_char (n mod 10)]"
  by (subst string_of_nat.simps) (simp add: string_of_nat_small)

lemma toString_small: "0 \<le> c \<Longrightarrow> c < 10 \<Longrightarrow> toString c = [digit_char (nat c)]"
  by (simp add: toString_def string_of_nat_small)

lemma toString_two:
  "10 \<le> c \<Longrightarrow> c < 100 \<Longrightarrow>
     toString c = [digit_char (nat c div 10), digit_char (nat c mod 10)]"
  by (simp add: toString_def string_of_nat_two)

lemma badges_updateNotificationCount:
  "badges (updateNotificationCount c s) = map (update_badge c) (badges s)"
  by (simp add: updateNotificationCount_def)

text \<open>
  Claim C10. \<open>updateNotificationCount c\<close> writes every badge: above 99 the text is the
  literal \<open>99+\<close>, from 1 to 99 it is the number \<open>c\<close>, and in both cases the badge is shown;
  at 0 or below the badge is hidden (and its text is left as it was).
\<close>

theorem badge_text_clipped_at_99:
  assumes "k < length (badges s)"
  shows "length (badges (updateNotificationCount c s)) = length (badges s) \<and>
         textContent (badges (updateNotificationCount c s) ! k) =
           (if 99 < c then ''99+'' else if 1 \<le> c then toString c
            else textContent (badges s ! k)) \<and>
         display (badges (updateNotificationCount c s) ! k) =
           (if 1 \<le> c then ''inline-block'' else ''none'')"
  using assms by (simp add: badges_updateNotificationCount update_badge_def)

text \<open>The badge of the example page at 150, 42, 7 and 0.\<close>

theorem badge_text_clipped_at_99_witness:
  "0 < length (badges example_page) \<and>
   textContent (badges (updateNotificationCount 150 example_page) ! 0) = ''99+'' \<and>
   display (badges (updateNotificationCount 150 example_page) ! 0) = ''inline-block'' \<and>
   textContent (badges (updateNotificationCount 42 example_page) ! 0) = ''42'' \<and>
   textContent (badges (updateNotificationCount 7 example_page) ! 0) = ''7'' \<and>
   display (badges (updateNotificationCount 7 example_page) ! 0) = ''inline-block'' \<and>
   textContent (badges (updateNotificationCount 0 example_page) ! 0) = ''0'' \<and>
   display (badges (updateNotificationCount 0 example_page) ! 0) = ''none''"
  using badge_text_clipped_at_99 [of 0 example_page 150]
    badge_text_clipped_at_99 [of 0 example_page 42]
    badge_text_clipped_at_99 [of 0 example_page 7]
    badge_text_clipped_at_99 [of 0 example_page 0]
  by (simp add: example_page_def toString_small toString_two digit_char_def)

subsection \<open>Rounding\<close>

lemma bit_length_le: "x < 2 ^ k \<Longrightarrow> bit_length x \<le> k"
proof (induction k arbitrary: x)
  case 0
  then show ?case by (simp add: bit_length.simps)
next
  case (Suc k)
  show ?case
  proof (cases "x \<le> 0")
    case True
    then show ?thesis by (simp add: bit_length.simps)
  next
    case False
    from Suc.prems have "x div 2 < 2 ^ k" by simp
    then have "bit_length (x div 2) \<le> k" by (rule Suc.IH)
    with False show ?thesis by (subst bit_length.simps) simp
  qed
qed

lemma round_double_small:
  assumes "\<bar>x\<bar> < 9007199254740992"
  shows "round_double x = x"
proof -
  have "\<bar>x\<bar> < 2 ^ 53" using assms by simp
  then have "bit_length \<bar>x\<bar> \<le> 53" by (rule bit_length_le)
  then show ?thesis by (simp add: round_double_def)
qed

lemma round_double_2_53:
  "round_double 9007199254740992 = 9007199254740992"
  "round_double (- 9007199254740992) = - 9007199254740992"
  "round_double 9007199254740993 = 9007199254740992"
  by code_simp+

lemma round_double_exact:
  assumes "- 9007199254740992 \<le> x" and "x \<le> 9007199254740992"
  shows "round_double x = x"
proof -
  consider "\<bar>x\<bar> < 9007199254740992" | "x = 9007199254740992" | "x = - 9007199254740992"
    using assms by linarith
  then show ?thesis
    by cases (simp_all add: round_double_small round_double_2_53)
qed

subsection \<open>Messages on the connected page\<close>

lemma sockets_handleMessage [simp]: "sockets (state_after (handleMessage m s)) = sockets s"
proof (cases m)
  case (New_notification n)
  then show ?thesis
    by (simp add: handleNewNotification_def Let_def updateNotificationCount_def
        showNotificationToast_def playNotificationSound_def showBrowserNotification_def
        addToNotificationDropdown_def split: option.splits)
next
  case (Notification_read i)
  then show ?thesis
    by (simp add: handleNotificationRead_def Let_def updateNotificationCount_def
        removeFromNotificationDropdown_def split: option.splits)
qed (simp_all add: updateNotificationCount_def)

lemma state_of_handleMessage [simp]:
  "state_of (state_after (handleMessage m s)) i = state_of s i"
  by (simp add: state_of_def)

lemma run_messages:
  "state_of s i = Some OPEN \<Longrightarrow> run (map (Message i) ms) s = Some (handleMessages ms s)"
  by (induction ms arbitrary: s) (simp_all add: onmessage_def)

lemma run_opened:
  "run (Opened 0 # es) (init True False example_page) = run es connected_page"
proof -
  have "state_of (init True False example_page) 0 = Some CONNECTING" by code_simp
  then show ?thesis by (simp add: connected_page_def init_def)
qed

lemma connected_page_open: "state_of connected_page 0 = Some OPEN"
  by code_simp

lemma run_connected:
  "run (Opened 0 # map (Message 0) ms) (init True False example_page) =
     Some (handleMessages ms connected_page)"
  by (simp only: run_opened run_messages [OF connected_page_open])

subsection \<open>The unread count\<close>

lemma count_updateNotificationCount [simp]:
  "notificationCount (updateNotificationCount c s) = c"
  by (simp add: updateNotificationCount_def)

lemma dropdown_updateNotificationCount [simp]:
  "dropdown (updateNotificationCount c s) = dropdown s"
  by (simp add: updateNotificationCount_def)

lemma count_addToNotificationDropdown [simp]:
  "notificationCount (addToNotificationDropdown n s) = notificationCount s"
  by (simp add: addToNotificationDropdown_def Let_def split: option.splits)

lemma count_removeFromNotificationDropdown [simp]:
  "notificationCount (state_after (removeFromNotificationDropdown i s)) = notificationCount s"
  by (simp add: removeFromNotificationDropdown_def split: option.splits)

lemma count_handleNewNotification:
  "notificationCount (state_after (handleNewNotification n s)) =
     round_double (notificationCount s + 1)"
  by (simp add: handleNewNotification_def Let_def showNotificationToast_def
      playNotificationSound_def showBrowserNotification_def)

lemma count_handleNotificationRead:
  "notificationCount (state_after (handleNotificationRead i s)) =
     (if 0 < notificationCount s then round_double (notificationCount s - 1)
      else notificationCount s)"
  by (simp add: handleNotificationRead_def Let_def)

lemma count_new_notifications:
  "- 9007199254740992 \<le> notificationCount s \<Longrightarrow>
   notificationCount s + int (length ns) \<le> 9007199254740992 \<Longrightarrow>
     notificationCount (handleMessages (map New_notification ns) s) =
       notificationCount s + int (length ns)"
proof (induction ns arbitrary: s)
  case Nil
  then show ?case by simp
next
  case (Cons n ns)
  let ?s1 = "state_after (handleNewNotification n s)"
  have c: "notificationCount ?s1 = notificationCount s + 1"
    using Cons.prems by (simp add: count_handleNewNotification round_double_exact)
  have "notificationCount (handleMessages (map New_notification ns) ?s1) =
          notificationCount ?s1 + int (length ns)"
    using Cons.prems c by (intro Cons.IH) simp_all
  with c show ?case by simp
qed

text \<open>
  Claim C5 says that a \<open>new_notification\<close> message increments the unread count by exactly
  1 in every state. The count is a double: once \<open>notification_count\<close> has set it to
  \<open>2 ^ 53 = 9007199254740992\<close>, the sum \<open>2 ^ 53 + 1\<close> is no double and rounds back, and
  the message leaves the count where it was.
\<close>

theorem new_notification_stuck_at_2_53:
  "map_option notificationCount
     (run [Opened 0, Message 0 (Notification_count 9007199254740992)]
        (init True False example_page)) = Some 9007199254740992 \<and>
   map_option notificationCount
     (run [Opened 0, Message 0 (Notification_count 9007199254740992),
           Message 0 (New_notification (example_notification ''n1''))]
        (init True False example_page)) = Some 9007199254740992"
  using run_connected [of "[Notification_count 9007199254740992]"]
    run_connected [of "[Notification_count 9007199254740992,
      New_notification (example_notification ''n1'')]"]
  by (simp add: count_handleNewNotification round_double_2_53)

text \<open>
  Claim C5, as the code has it. In every state whose unread count is below \<open>2 ^ 53\<close>
  (and not below \<open>- 2 ^ 53\<close>), handling a \<open>new_notification\<close> message increments the
  count by exactly 1; a sequence of such messages that stays within \<open>2 ^ 53\<close> adds its
  length, and after a \<open>notification_count\<close> message the count is the value received plus
  the number of \<open>new_notification\<close> messages since.
\<close>

theorem new_notification_increments_count:
  "(- 9007199254740992 \<le> notificationCount s \<and> notificationCount s < 9007199254740992 \<longrightarrow>
      notificationCount (state_after (handleMessage (New_notification n) s)) =
        notificationCount s + 1) \<and>
   (- 9007199254740992 \<le> notificationCount s \<and>
    notificationCount s + int (length ns) \<le> 9007199254740992 \<longrightarrow>
      notificationCount (handleMessages (map New_notification ns) s) =
        notificationCount s + int (length ns)) \<and>
   (- 9007199254740992 \<le> c \<and> c + int (length ns) \<le> 9007199254740992 \<longrightarrow>
      notificationCount (handleMessages (Notification_count c # map New_notification ns) s) =
        c + int (length ns))"
  by (simp add: count_handleNewNotification count_new_notifications round_double_exact)

text \<open>
  From 3 the count goes to 4 and, after eleven notifications, to 14; eleven notifications
  after a count of \<open>2 ^ 53 - 11\<close> reach \<open>2 ^ 53\<close>.
\<close>

theorem new_notification_increments_count_witness:
  "- 9007199254740992 \<le> notificationCount counted_page \<and>
   notificationCount counted_page < 9007199254740992 \<and>
   notificationCount (state_after (handleMessage (New_notification (example_notification ''n1''))
     counted_page)) = 4 \<and>
   notificationCount (handleMessages (map New_notification eleven) counted_page) = 14 \<and>
   notificationCount
     (handleMessages (Notification_count 9007199254740981 # map New_notification eleven)
        counted_page) = 9007199254740992"
proof -
  have a: "notificationCount counted_page = 3" by (simp add: counted_page_def)
  have l: "length eleven = 11" by (simp add: eleven_def)
  show ?thesis
    using new_notification_increments_count
      [of counted_page "example_notification ''n1''" eleven 9007199254740981]
    by (simp add: a l)
qed


lemma mark_first_absent: "i \<notin> notificationId ` set xs \<Longrightarrow> mark_first i xs = xs"
  by (induction xs) auto

lemma dropdown_handleNotificationRead:
  "dropdown (state_after (handleNotificationRead i s)) =
     (if selector_ok i then map_option (mark_first i) (dropdown s) else dropdown s)"
  by (simp add: handleNotificationRead_def removeFromNotificationDropdown_def Let_def
      split: option.splits)

lemma handleNotificationRead_returns:
  "selector_ok i \<Longrightarrow>
     handleNotificationRead i s = Returns (state_after (handleNotificationRead i s))"
  by (simp add: handleNotificationRead_def removeFromNotificationDropdown_def)

lemma handleNotificationRead_throws:
  "\<not> selector_ok i \<Longrightarrow>
     handleNotificationRead i s =
       Throws SyntaxError
         (if notificationCount s > 0
          then updateNotificationCount (round_double (notificationCount s - 1))
                 (s\<lparr>notificationCount := round_double (notificationCount s - 1)\<rparr>)
          else s)"
  by (simp add: handleNotificationRead_def removeFromNotificationDropdown_def Let_def)

lemma updateNotificationCount_twice:
  "updateNotificationCount c (s\<lparr>notificationCount := c'\<rparr>) = updateNotificationCount c s"
  by (simp add: updateNotificationCount_def)

lemma quoted_id_not_ok: "\<not> selector_ok quoted_id"
  by (simp add: selector_ok_def quoted_id_def)

text \<open>
  Claim C6 says that every \<open>notification_read\<close> message is handled without a crash and
  decrements the count by 1, floored at 0. On the connected page with a count of 3, the
  message with the id \<open>n"1\<close> decrements the count to 2 and then throws a SyntaxError out
  of the handler, the selector being ill-formed. And from a count of \<open>2 ^ 53 + 2\<close> the
  decrement yields \<open>2 ^ 53\<close>, the nearest double to \<open>2 ^ 53 + 1\<close>.
\<close>

theorem notification_read_with_quote_throws:
  "run [Opened 0, Message 0 (Notification_count 3)] (init True False example_page) =
     Some counted_page \<and>
   \<not> selector_ok quoted_id \<and>
   onmessage (Notification_read quoted_id) counted_page =
     Throws SyntaxError (updateNotificationCount 2 counted_page) \<and>
   notificationCount
     (state_after (onmessage (Notification_read ''n1'')
        (updateNotificationCount 9007199254740994 connected_page))) = 9007199254740992"
proof -
  have a: "run [Opened 0, Message 0 (Notification_count 3)] (init True False example_page) =
     Some counted_page"
    using run_connected [of "[Notification_count 3]"] by (simp add: counted_page_def)
  have c: "notificationCount counted_page = 3" by (simp add: counted_page_def)
  have b: "onmessage (Notification_read quoted_id) counted_page =
     Throws SyntaxError (updateNotificationCount 2 counted_page)"
    by (simp add: onmessage_def handleNotificationRead_throws quoted_id_not_ok c
        round_double_small updateNotificationCount_twice)
  have d: "notificationCount
     (state_after (onmessage (Notification_read ''n1'')
        (updateNotificationCount 9007199254740994 connected_page))) = 9007199254740992"
    by (simp add: onmessage_def count_handleNotificationRead round_double_2_53)
  show ?thesis using a b d quoted_id_not_ok by simp
qed

text \<open>
  Claim C6, as the code has it. Whatever the id, the handler decrements the count when it
  is positive and leaves it otherwise, also when the lookup throws afterwards; for a count
  from 0 to \<open>2 ^ 53\<close> that is a decrement by 1 floored at 0, and 0 stays 0. When the id
  holds no double quote, backslash, line break or NUL the handler returns, without an
  exception, whether or not an entry carries the id; when none does, on a page without
  markup in its notifications, \<open>querySelector\<close> yields \<open>null\<close>, the guard skips the
  marking and the list is as before.
\<close>

theorem notification_read_decrements_floored:
  "notificationCount (state_after (handleMessage (Notification_read i) s)) =
     (if 0 < notificationCount s then round_double (notificationCount s - 1)
      else notificationCount s) \<and>
   (0 \<le> notificationCount s \<and> notificationCount s \<le> 9007199254740992 \<longrightarrow>
      notificationCount (state_after (handleMessage (Notification_read i) s)) =
        max 0 (notificationCount s - 1)) \<and>
   (notificationCount s = 0 \<longrightarrow>
      notificationCount (state_after (handleMessage (Notification_read i) s)) = 0) \<and>
   (selector_ok i \<longrightarrow>
      handleMessage (Notification_read i) s =
        Returns (state_after (handleMessage (Notification_read i) s))) \<and>
   (selector_ok i \<and> plain_page s \<and> i \<notin> notificationId ` set (items_of s) \<longrightarrow>
      dropdown (state_after (handleMessage (Notification_read i) s)) = dropdown s)"
proof -
  have "dropdown (state_after (handleNotificationRead i s)) = dropdown s"
    if "selector_ok i" "i \<notin> notificationId ` set (items_of s)"
    using that
    by (cases "dropdown s")
       (simp_all add: dropdown_handleNotificationRead items_of_def mark_first_absent)
  moreover have "round_double (notificationCount s - 1) = notificationCount s - 1"
    if "0 < notificationCount s" "notificationCount s \<le> 9007199254740992"
    using that by (intro round_double_exact) simp_all
  ultimately show ?thesis
    using handleNotificationRead_returns [of i s]
    by (auto simp: count_handleNotificationRead)
qed

lemma plain_counted_page: "plain_page counted_page"
  by code_simp

text \<open>
  The connected page after \<open>notification_count\<close> 3 holds no entry with id \<open>n9\<close>: the
  handler returns, the count goes to 2 and the list stays empty; with a count of 0 the
  count stays 0.
\<close>

theorem notification_read_decrements_floored_witness:
  "0 \<le> notificationCount counted_page \<and> notificationCount counted_page \<le> 9007199254740992 \<and>
   selector_ok ''n9'' \<and> plain_page counted_page \<and>
   ''n9'' \<notin> notificationId ` set (items_of counted_page) \<and>
   handleMessage (Notification_read ''n9'') counted_page =
     Returns (state_after (handleMessage (Notification_read ''n9'') counted_page)) \<and>
   notificationCount (state_after (handleMessage (Notification_read ''n9'') counted_page)) = 2 \<and>
   dropdown (state_after (handleMessage (Notification_read ''n9'') counted_page)) = Some [] \<and>
   notificationCount connected_page = 0 \<and>
   notificationCount (state_after (handleMessage (Notification_read ''n9'') connected_page)) = 0"
proof -
  have a: "notificationCount counted_page = 3" by (simp add: counted_page_def)
  have b: "selector_ok ''n9''" by (simp add: selector_ok_def)
  have c: "dropdown counted_page = Some []" by code_simp
  have d: "notificationCount connected_page = 0" by code_simp
  have e: "items_of counted_page = []" by (simp add: items_of_def c)
  show ?thesis
    using a b c d plain_counted_page
      notification_read_decrements_floored [of "''n9''" counted_page]
      notification_read_decrements_floored [of "''n9''" connected_page]
    by (simp add: e)
qed


subsection \<open>The recent list\<close>

































subsection \<open>Marking as read\<close>

text \<open>
  Claim C9. \<open>markAsRead i\<close> hands the message \<open>mark_read\<close> with the id \<open>i\<close> to the current
  socket exactly when that socket is open; the rest of the state is as before. When the
  socket is not open (or there is none) the call changes nothing at all: the request is
  not stored, no timer is set and nothing is sent.
\<close>

theorem markAsRead_sends_iff_open:
  "(socket_is_open s \<longrightarrow>
      (\<exists>k. socket s = Some k \<and> markAsRead i s = s\<lparr>sent := sent s @ [(k, Mark_read i)]\<rparr>)) \<and>
   (\<not> socket_is_open s \<longrightarrow> markAsRead i s = s) \<and>
   (sent (markAsRead i s) \<noteq> sent s \<longleftrightarrow> socket_is_open s)"
  by (auto simp: socket_is_open_def markAsRead_def split: option.splits)

text \<open>On the connected page the message goes to socket 0; on the fresh page nothing happens.\<close>

theorem markAsRead_sends_iff_open_witness:
  "socket_is_open connected_page \<and>
   sent (markAsRead ''n1'' connected_page) = [(0, Mark_read ''n1'')] \<and>
   \<not> socket_is_open example_page \<and>
   markAsRead ''n1'' example_page = example_page"
proof -
  have a: "socket_is_open connected_page" by code_simp
  have b: "\<not> socket_is_open example_page" by (simp add: socket_is_open_def example_page_def)
  have c: "socket connected_page = Some 0" by code_simp
  have d: "sent connected_page = []" by code_simp
  show ?thesis
    using a b c d markAsRead_sends_iff_open [of connected_page "''n1''"]
      markAsRead_sends_iff_open [of example_page "''n1''"]
    by auto
qed

subsection \<open>Reconnecting\<close>

lemma scheduleReconnect_below:
  "reconnectAttempts s < maxReconnectAttempts s \<Longrightarrow>
     scheduleReconnect s =
       s\<lparr>reconnectAttempts := Suc (reconnectAttempts s),
         timers := timers s @ [reconnectDelay s * 2 ^ reconnectAttempts s]\<rparr>"
  by (simp add: scheduleReconnect_def Let_def)

lemma scheduleReconnect_exhausted:
  "\<not> reconnectAttempts s < maxReconnectAttempts s \<Longrightarrow> scheduleReconnect s = s"
  by (simp add: scheduleReconnect_def)

lemma attempt_schedules:
  assumes "\<not> socket_is_open s" and "timers s = []" and "maxReconnectAttempts s = 5"
    and "reconnectDelay s = 1000" and "reconnectAttempts s = k" and "k < 5"
  shows "timers (attempt f s) = [1000 * 2 ^ k] \<and> reconnectAttempts (attempt f s) = Suc k \<and>
         maxReconnectAttempts (attempt f s) = 5 \<and> reconnectDelay (attempt f s) = 1000 \<and>
         \<not> socket_is_open ((attempt f s)\<lparr>timers := []\<rparr>)"
  using assms
  by (cases f)
     (simp_all add: connectWebSocket_def scheduleReconnect_below onclose_def onerror_def
        updateConnectionStatus_def set_readyState_def socket_is_open_def nth_append
        split: option.splits)

lemma attempt_exhausted:
  assumes "\<not> socket_is_open s" and "timers s = []" and "maxReconnectAttempts s = 5"
    and "reconnectAttempts s = 5"
  shows "timers (attempt f s) = [] \<and> reconnectAttempts (attempt f s) = 5"
  using assms
  by (cases f)
     (simp_all add: connectWebSocket_def scheduleReconnect_exhausted onclose_def onerror_def
        updateConnectionStatus_def set_readyState_def)

text \<open>
  With \<open>k\<close> attempts counted, the run schedules the delays for the counts \<open>k\<close> to 4, one
  per failure.
\<close>

lemma failing_run_delays:
  assumes "\<not> socket_is_open s" and "timers s = []" and "maxReconnectAttempts s = 5"
    and "reconnectDelay s = 1000" and "reconnectAttempts s = k" and "k \<le> 5"
  shows "scheduled_delays fs s = take (length fs) (map (\<lambda>j. 1000 * 2 ^ j) [k..<5])"
  using assms
proof (induction fs s arbitrary: k rule: failing_run.induct)
  case (1 s)
  then show ?case by (simp add: scheduled_delays_def)
next
  case (2 f s)
  show ?case
  proof (cases "k < 5")
    case True
    with 2 attempt_schedules [of s k f] show ?thesis
      by (simp add: scheduled_delays_def upt_conv_Cons)
  next
    case False
    with 2 have "k = 5" by simp
    with 2 attempt_exhausted [of s f] show ?thesis
      by (simp add: scheduled_delays_def)
  qed
next
  case (3 f g fs s)
  show ?case
  proof (cases "k < 5")
    case True
    let ?s1 = "attempt f s"
    from 3(2-) True have a: "timers ?s1 = [1000 * 2 ^ k]" "reconnectAttempts ?s1 = Suc k"
      "maxReconnectAttempts ?s1 = 5" "reconnectDelay ?s1 = 1000"
      "\<not> socket_is_open (?s1\<lparr>timers := []\<rparr>)"
      using attempt_schedules [of s k f] by simp_all
    have "scheduled_delays (g # fs) (?s1\<lparr>timers := []\<rparr>) =
            take (length (g # fs)) (map (\<lambda>j. 1000 * 2 ^ j) [Suc k..<5])"
      using a True by (intro "3.IH" [of ?s1 "1000 * 2 ^ k" "[]" "Suc k"]) simp_all
    then show ?thesis
      using a True by (simp add: scheduled_delays_def upt_conv_Cons split: prod.splits)
  next
    case False
    with 3(2-) have "k = 5" by simp
    with 3(2-) attempt_exhausted [of s f] show ?thesis
      by (simp add: scheduled_delays_def)
  qed
qed

text \<open>Once more failures have happened than counts were left, nothing is pending.\<close>

lemma failing_run_end:
  assumes "\<not> socket_is_open s" and "timers s = []" and "maxReconnectAttempts s = 5"
    and "reconnectDelay s = 1000" and "reconnectAttempts s = k" and "k \<le> 5"
    and "5 - k < length fs"
  shows "timers (snd (failing_run fs s)) = [] \<and> reconnectAttempts (snd (failing_run fs s)) = 5"
  using assms
proof (induction fs s arbitrary: k rule: failing_run.induct)
  case (1 s)
  then show ?case by simp
next
  case (2 f s)
  then have "k = 5" by simp
  with 2 attempt_exhausted [of s f] show ?case by simp
next
  case (3 f g fs s)
  show ?case
  proof (cases "k < 5")
    case True
    let ?s1 = "attempt f s"
    from 3(2-) True have a: "timers ?s1 = [1000 * 2 ^ k]" "reconnectAttempts ?s1 = Suc k"
      "maxReconnectAttempts ?s1 = 5" "reconnectDelay ?s1 = 1000"
      "\<not> socket_is_open (?s1\<lparr>timers := []\<rparr>)"
      using attempt_schedules [of s k f] by simp_all
    have "timers (snd (failing_run (g # fs) (?s1\<lparr>timers := []\<rparr>))) = [] \<and>
          reconnectAttempts (snd (failing_run (g # fs) (?s1\<lparr>timers := []\<rparr>))) = 5"
      using a True "3.prems"(7) by (intro "3.IH" [of ?s1 "1000 * 2 ^ k" "[]" "Suc k"]) simp_all
    then show ?thesis
      using a by (simp add: case_prod_beta Let_def)
  next
    case False
    with 3(2-) have "k = 5" by simp
    with 3(2-) attempt_exhausted [of s f] show ?thesis
      by simp
  qed
qed

text \<open>
  Claim C1. \<open>scheduleReconnect\<close> increments the attempt counter first and sets a timer of
  \<open>reconnectDelay * 2 ^ (reconnectAttempts - 1)\<close> with the incremented counter; at the
  maximum it does nothing. From a fresh state (no attempt counted, base delay 1000 ms,
  maximum 5, no timer pending, socket not open), in a run whose connect attempts all fail
  at once, in whichever of the three ways, the delays scheduled are the first ones of
  1000, 2000, 4000, 8000, 16000 ms, one per failure, that is 1, 2, 4, 8, 16 times the
  base delay. With the failure of the fifth retry (the sixth attempt in all) no timer is
  pending, the counter is at 5 and the run is over: exactly five retries were made.
\<close>

theorem reconnect_backoff_sequence:
  assumes "reconnectAttempts s = 0" and "reconnectDelay s = 1000"
    and "maxReconnectAttempts s = 5" and "timers s = []" and "\<not> socket_is_open s"
  shows "scheduled_delays fs s = take (length fs) [1000, 2000, 4000, 8000, 16000] \<and>
         (5 < length fs \<longrightarrow>
            fst (failing_run fs s) = [1000, 2000, 4000, 8000, 16000] \<and>
            timers (snd (failing_run fs s)) = [] \<and>
            reconnectAttempts (snd (failing_run fs s)) = 5) \<and>
         (reconnectAttempts r < maxReconnectAttempts r \<longrightarrow>
            reconnectAttempts (scheduleReconnect r) = reconnectAttempts r + 1 \<and>
            timers (scheduleReconnect r) =
              timers r @ [reconnectDelay r * 2 ^ (reconnectAttempts (scheduleReconnect r) - 1)]) \<and>
         (\<not> reconnectAttempts r < maxReconnectAttempts r \<longrightarrow> scheduleReconnect r = r)"
proof -
  have u: "[0..<5] = [0, 1, 2, 3, 4]" by (simp add: upt_rec)
  have d: "scheduled_delays fs s = take (length fs) [1000, 2000, 4000, 8000, 16000]"
    using failing_run_delays [of s 0 fs] assms by (simp add: u)
  have e: "timers (snd (failing_run fs s)) = [] \<and> reconnectAttempts (snd (failing_run fs s)) = 5"
    if "5 < length fs"
    using failing_run_end [of s 0 fs] assms that by simp
  have f: "fst (failing_run fs s) = [1000, 2000, 4000, 8000, 16000]" if "5 < length fs"
    using d e [OF that] that by (simp add: scheduled_delays_def case_prod_beta)
  show ?thesis
    using d e f by (simp add: scheduleReconnect_below scheduleReconnect_exhausted)
qed

text \<open>
  Seven failures of mixed kinds on the example page: five timers, then none; two
  failures: the first two delays.
\<close>

theorem reconnect_backoff_sequence_witness:
  "reconnectAttempts example_page = 0 \<and> reconnectDelay example_page = 1000 \<and>
   maxReconnectAttempts example_page = 5 \<and> timers example_page = [] \<and>
   \<not> socket_is_open example_page \<and>
   scheduled_delays
     [Connection_fails, Constructor_throws, Connection_closes, Connection_fails,
      Connection_fails, Constructor_throws, Connection_fails] example_page =
     [1000, 2000, 4000, 8000, 16000] \<and>
   timers (snd (failing_run
     [Connection_fails, Constructor_throws, Connection_closes, Connection_fails,
      Connection_fails, Constructor_throws, Connection_fails] example_page)) = [] \<and>
   scheduled_delays [Connection_fails, Connection_closes] example_page = [1000, 2000] \<and>
   timers (scheduleReconnect example_page) = [1000]"
proof -
  have h: "reconnectAttempts example_page = 0" "reconnectDelay example_page = 1000"
    "maxReconnectAttempts example_page = 5" "timers example_page = []"
    "\<not> socket_is_open example_page"
    by (simp_all add: example_page_def socket_is_open_def)
  show ?thesis
    using h
      reconnect_backoff_sequence [OF h, of
        "[Connection_fails, Constructor_throws, Connection_closes, Connection_fails,
          Connection_fails, Constructor_throws, Connection_fails]" example_page]
      reconnect_backoff_sequence [OF h, of "[Connection_fails, Connection_closes]" example_page]
    by simp
qed

text \<open>
  Claim C2. The \<open>open\<close> handler sets the attempt counter to 0 and the delay to its base
  value of 1000 ms in every state (and marks the client connected). So when the
  connection is lost later the timer set is the base delay: the handlers \<open>onopen\<close>,
  \<open>onclose\<close> one after the other, and the events \<open>open\<close>, \<open>close\<close> of a connecting
  socket, leave one more timer, of 1000 ms.
\<close>

theorem open_resets_backoff:
  "reconnectAttempts (onopen s) = 0 \<and> reconnectDelay (onopen s) = 1000 \<and>
   isConnected (onopen s) \<and>
   (0 < maxReconnectAttempts s \<longrightarrow>
      timers (onclose (onopen s)) = timers s @ [1000] \<and>
      reconnectAttempts (onclose (onopen s)) = 1) \<and>
   (state_of s i = Some CONNECTING \<and> 0 < maxReconnectAttempts s \<longrightarrow>
      (\<exists>s'. run [Opened i, Closed i] s = Some s' \<and> timers s' = timers s @ [1000]))"
  by (simp add: onopen_def onclose_def updateConnectionStatus_def scheduleReconnect_below
        state_of_def live_def set_readyState_def)

text \<open>
  After two failed attempts the counter is at 2 and a third failure would wait 4000 ms.
  When the third socket opens instead and is closed later, the wait is 1000 ms.
\<close>

theorem open_resets_backoff_witness:
  "reconnectAttempts two_failures = 2 \<and>
   timers (attempt Connection_fails two_failures) = [4000] \<and>
   state_of (connectWebSocket False two_failures) 2 = Some CONNECTING \<and>
   0 < maxReconnectAttempts (connectWebSocket False two_failures) \<and>
   reconnectAttempts (onopen (connectWebSocket False two_failures)) = 0 \<and>
   reconnectDelay (onopen (connectWebSocket False two_failures)) = 1000 \<and>
   timers (onclose (onopen (connectWebSocket False two_failures))) = [1000] \<and>
   (\<exists>s'. run [Opened 2, Closed 2] (connectWebSocket False two_failures) = Some s' \<and>
         timers s' = [1000])"
proof -
  let ?s = "connectWebSocket False two_failures"
  have a: "reconnectAttempts two_failures = 2" by code_simp
  have b: "timers (attempt Connection_fails two_failures) = [4000]" by code_simp
  have c: "state_of ?s 2 = Some CONNECTING" by code_simp
  have d: "0 < maxReconnectAttempts ?s" by code_simp
  have e: "timers ?s = []" by code_simp
  show ?thesis
    using a b c d e open_resets_backoff [of ?s 2] by simp
qed

lemma update_indicator_False:
  "textContent (update_indicator False x) = ''Disconnected'' \<and>
   ''text-danger'' \<in> set (classList (update_indicator False x)) \<and>
   ''text-success'' \<notin> set (classList (update_indicator False x))"
  by (simp add: update_indicator_def classList_add_def classList_remove_def)

lemma update_indicator_idem:
  "update_indicator False (update_indicator False x) = update_indicator False x"
  by (simp add: update_indicator_def classList_add_def classList_remove_def)

lemma indicators_onerror:
  "indicators (onerror s) = map (update_indicator False) (indicators s)"
  by (simp add: onerror_def updateConnectionStatus_def)

lemma indicators_onclose:
  "indicators (onclose s) = map (update_indicator False) (indicators s)"
  by (simp add: onclose_def updateConnectionStatus_def scheduleReconnect_def Let_def)

lemma indicators_set_readyState [simp]: "indicators (set_readyState i r s) = indicators s"
  by (simp add: set_readyState_def)

text \<open>The \<open>error\<close> handler by itself sets no timer and counts no attempt.\<close>

lemma onerror_sets_no_timer:
  "timers (onerror s) = timers s \<and> reconnectAttempts (onerror s) = reconnectAttempts s \<and>
   maxReconnectAttempts (onerror s) = maxReconnectAttempts s \<and>
   reconnectDelay (onerror s) = reconnectDelay s"
  by (simp add: onerror_def updateConnectionStatus_def)

lemma onclose_schedules:
  "\<not> isConnected (onclose s) \<and>
   timers (onclose s) =
     (if reconnectAttempts s < maxReconnectAttempts s
      then timers s @ [reconnectDelay s * 2 ^ reconnectAttempts s] else timers s) \<and>
   reconnectAttempts (onclose s) =
     (if reconnectAttempts s < maxReconnectAttempts s
      then reconnectAttempts s + 1 else reconnectAttempts s)"
  by (simp add: onclose_def updateConnectionStatus_def scheduleReconnect_def Let_def)

lemma set_readyState_fields [simp]:
  "timers (set_readyState i r s) = timers s"
  "reconnectAttempts (set_readyState i r s) = reconnectAttempts s"
  "maxReconnectAttempts (set_readyState i r s) = maxReconnectAttempts s"
  "reconnectDelay (set_readyState i r s) = reconnectDelay s"
  by (simp_all add: set_readyState_def)

text \<open>
  Claim C4. A socket that is closed fires \<open>close\<close>; a socket whose connection fails fires
  \<open>error\<close> and, right after it, \<open>close\<close>. After either event the client is marked
  disconnected, every status indicator reads \<open>Disconnected\<close> with the class
  \<open>text-danger\<close> and without \<open>text-success\<close>, and one reconnect is scheduled, with the
  delay of the attempt, unless the attempts are exhausted; then no timer is set. The
  \<open>error\<close> handler marks the client disconnected and updates the indicators; the timer
  is set by the \<open>close\<close> handler that runs with it.
\<close>

theorem close_and_error_events_schedule_reconnect:
  assumes "step (Closed i) s = Some s' \<or> step (Failed i) s = Some s'"
  shows "\<not> isConnected s' \<and>
         indicators s' = map (update_indicator False) (indicators s) \<and>
         list_all (\<lambda>x. textContent x = ''Disconnected'' \<and> ''text-danger'' \<in> set (classList x) \<and>
                       ''text-success'' \<notin> set (classList x)) (indicators s') \<and>
         timers s' =
           (if reconnectAttempts s < maxReconnectAttempts s
            then timers s @ [reconnectDelay s * 2 ^ reconnectAttempts s] else timers s) \<and>
         reconnectAttempts s' =
           (if reconnectAttempts s < maxReconnectAttempts s
            then reconnectAttempts s + 1 else reconnectAttempts s) \<and>
         \<not> isConnected (onerror s) \<and>
         indicators (onerror s) = map (update_indicator False) (indicators s)"
proof -
  let ?c = "set_readyState i CLOSED s"
  from assms have s': "s' = onclose ?c \<or> s' = onclose (onerror ?c)"
    by (auto split: if_splits)
  have i: "indicators s' = map (update_indicator False) (indicators s)"
    using s' by (auto simp: indicators_onclose indicators_onerror update_indicator_idem)
  have l: "list_all (\<lambda>x. textContent x = ''Disconnected'' \<and>
              ''text-danger'' \<in> set (classList x) \<and>
              ''text-success'' \<notin> set (classList x)) (indicators s')"
    unfolding i by (simp add: list_all_iff update_indicator_False)
  have t: "\<not> isConnected s' \<and>
     timers s' =
           (if reconnectAttempts s < maxReconnectAttempts s
            then timers s @ [reconnectDelay s * 2 ^ reconnectAttempts s] else timers s) \<and>
         reconnectAttempts s' =
           (if reconnectAttempts s < maxReconnectAttempts s
            then reconnectAttempts s + 1 else reconnectAttempts s)"
    using s' onclose_schedules [of ?c] onclose_schedules [of "onerror ?c"]
      onerror_sets_no_timer [of ?c]
    by auto
  have e: "\<not> isConnected (onerror s)"
    by (simp add: onerror_def updateConnectionStatus_def)
  show ?thesis
    using i l t e indicators_onerror [of s] by simp
qed

lemma retry_step:
  assumes "\<not> socket_is_open s" and "timers s = []" and "maxReconnectAttempts s = 5"
    and "reconnectDelay s = 1000" and "reconnectAttempts s = k" and "k < 5"
    and "length (sockets s) = m"
  shows "\<not> socket_is_open (retry s) \<and> timers (retry s) = [] \<and>
         maxReconnectAttempts (retry s) = 5 \<and> reconnectDelay (retry s) = 1000 \<and>
         reconnectAttempts (retry s) = Suc k \<and> length (sockets (retry s)) = Suc m"
proof -
  have "length (sockets (retry s)) = Suc m"
    using assms(1,7)
    by (simp add: retry_def connectWebSocket_def onclose_def onerror_def
        updateConnectionStatus_def scheduleReconnect_def set_readyState_def Let_def)
  then show ?thesis
    using attempt_schedules [OF assms(1-6), of Connection_fails] by (simp add: retry_def)
qed

lemma exhausted_page_fields:
  "reconnectAttempts exhausted_page = 5 \<and> maxReconnectAttempts exhausted_page = 5 \<and>
   reconnectDelay exhausted_page = 1000 \<and> timers exhausted_page = [] \<and>
   state_of exhausted_page 5 = Some CONNECTING"
proof -
  let ?r1 = "retry example_page"
  let ?r2 = "retry ?r1"
  let ?r3 = "retry ?r2"
  let ?r4 = "retry ?r3"
  let ?r5 = "retry ?r4"
  have r0: "\<not> socket_is_open example_page" "timers example_page = []"
    "maxReconnectAttempts example_page = 5" "reconnectDelay example_page = 1000"
    "reconnectAttempts example_page = 0" "length (sockets example_page) = 0"
    by (simp_all add: example_page_def socket_is_open_def)
  have r1: "\<not> socket_is_open ?r1" "timers ?r1 = []" "maxReconnectAttempts ?r1 = 5"
    "reconnectDelay ?r1 = 1000" "reconnectAttempts ?r1 = 1" "length (sockets ?r1) = 1"
    using retry_step [OF r0(1-5) _ r0(6)] by simp_all
  have r2: "\<not> socket_is_open ?r2" "timers ?r2 = []" "maxReconnectAttempts ?r2 = 5"
    "reconnectDelay ?r2 = 1000" "reconnectAttempts ?r2 = 2" "length (sockets ?r2) = 2"
    using retry_step [OF r1(1-5) _ r1(6)] by simp_all
  have r3: "\<not> socket_is_open ?r3" "timers ?r3 = []" "maxReconnectAttempts ?r3 = 5"
    "reconnectDelay ?r3 = 1000" "reconnectAttempts ?r3 = 3" "length (sockets ?r3) = 3"
    using retry_step [OF r2(1-5) _ r2(6)] by simp_all
  have r4: "\<not> socket_is_open ?r4" "timers ?r4 = []" "maxReconnectAttempts ?r4 = 5"
    "reconnectDelay ?r4 = 1000" "reconnectAttempts ?r4 = 4" "length (sockets ?r4) = 4"
    using retry_step [OF r3(1-5) _ r3(6)] by simp_all
  have r5: "\<not> socket_is_open ?r5" "timers ?r5 = []" "maxReconnectAttempts ?r5 = 5"
    "reconnectDelay ?r5 = 1000" "reconnectAttempts ?r5 = 5" "length (sockets ?r5) = 5"
    using retry_step [OF r4(1-5) _ r4(6)] by simp_all
  show ?thesis
    using r5 by (simp add: exhausted_page_def connectWebSocket_def state_of_def nth_append)
qed

text \<open>
  The first socket of the example page fails, or is closed: one timer of 1000 ms. The
  sixth socket fails after five failures: no timer.
\<close>

theorem close_and_error_events_schedule_reconnect_witness:
  "step (Failed 0) (init True False example_page) =
     Some (onclose (onerror (set_readyState 0 CLOSED (init True False example_page)))) \<and>
   timers (onclose (onerror (set_readyState 0 CLOSED (init True False example_page)))) = [1000] \<and>
   \<not> isConnected (onclose (onerror (set_readyState 0 CLOSED (init True False example_page)))) \<and>
   step (Closed 0) (init True False example_page) =
     Some (onclose (set_readyState 0 CLOSED (init True False example_page))) \<and>
   timers (onclose (set_readyState 0 CLOSED (init True False example_page))) = [1000] \<and>
   step (Failed 5) exhausted_page =
     Some (onclose (onerror (set_readyState 5 CLOSED exhausted_page))) \<and>
   reconnectAttempts exhausted_page = 5 \<and>
   timers (onclose (onerror (set_readyState 5 CLOSED exhausted_page))) = []"
proof -
  let ?s = "init True False example_page"
  have f: "state_of ?s 0 = Some CONNECTING" "reconnectAttempts ?s = 0"
    "maxReconnectAttempts ?s = 5" "reconnectDelay ?s = 1000" "timers ?s = []"
    by (simp_all add: init_def connectWebSocket_def socket_is_open_def example_page_def
        state_of_def)
  have a: "step (Failed 0) ?s = Some (onclose (onerror (set_readyState 0 CLOSED ?s)))"
    and b: "step (Closed 0) ?s = Some (onclose (set_readyState 0 CLOSED ?s))"
    using f(1) by (simp_all add: live_def)
  have c: "step (Failed 5) exhausted_page =
     Some (onclose (onerror (set_readyState 5 CLOSED exhausted_page)))"
    using exhausted_page_fields by (simp add: live_def)
  show ?thesis
    using a b c exhausted_page_fields
      close_and_error_events_schedule_reconnect [of 0 ?s, OF disjI2, OF a]
      close_and_error_events_schedule_reconnect [of 0 ?s, OF disjI1, OF b]
      close_and_error_events_schedule_reconnect [of 5 exhausted_page, OF disjI2, OF c]
    by (simp add: f(2-))
qed

subsection \<open>One connection at a time\<close>

lemma filter_update_drop:
  "i < length xs \<Longrightarrow> P (xs ! i) \<Longrightarrow> \<not> P y \<Longrightarrow>
     Suc (length (filter P (xs[i := y]))) = length (filter P xs)"
proof (induction xs arbitrary: i)
  case Nil
  then show ?case by simp
next
  case (Cons x xs)
  then show ?case by (cases i) auto
qed

lemma filter_update_keep:
  "i < length xs \<Longrightarrow> P (xs ! i) \<Longrightarrow> P y \<Longrightarrow>
     length (filter P (xs[i := y])) = length (filter P xs)"
proof (induction xs arbitrary: i)
  case Nil
  then show ?case by simp
next
  case (Cons x xs)
  then show ?case by (cases i) auto
qed

lemma live_iff: "live s i \<longleftrightarrow> i < length (sockets s) \<and> readyState (sockets s ! i) \<noteq> CLOSED"
  by (cases "readyState (sockets s ! i)") (auto simp: live_def state_of_def)

lemma live_count_closed:
  "live s i \<Longrightarrow> Suc (live_count (set_readyState i CLOSED s)) = live_count s"
  by (simp add: live_iff live_count_def set_readyState_def filter_update_drop)

lemma live_count_kept:
  "live s i \<Longrightarrow> r \<noteq> CLOSED \<Longrightarrow> live_count (set_readyState i r s) = live_count s"
  by (simp add: live_iff live_count_def set_readyState_def filter_update_keep)

lemma open_is_live: "socket_is_open s \<Longrightarrow> 0 < live_count s"
  by (auto simp: socket_is_open_def live_count_def filter_empty_conv
      split: option.splits intro!: bexI [of _ "sockets s ! the (socket s)"])

lemma pending_kept:
  "live s i \<Longrightarrow> r \<noteq> CLOSED \<Longrightarrow> pending (set_readyState i r s) = pending s"
  by (simp add: pending_def live_count_kept)

lemma pending_closed:
  "live s i \<Longrightarrow> Suc (pending (set_readyState i CLOSED s)) = pending s"
  using live_count_closed [of s i] by (simp add: pending_def)

lemma pending_scheduleReconnect: "pending (scheduleReconnect s) \<le> Suc (pending s)"
  by (simp add: pending_def scheduleReconnect_def Let_def live_count_def)

lemma pending_updateConnectionStatus [simp]:
  "pending (updateConnectionStatus b s) = pending s"
  by (simp add: pending_def updateConnectionStatus_def live_count_def)

lemma pending_onopen [simp]: "pending (onopen s) = pending s"
  by (simp add: onopen_def) (simp add: pending_def live_count_def)

lemma pending_onerror [simp]: "pending (onerror s) = pending s"
  by (simp add: onerror_def) (simp add: pending_def live_count_def)

lemma pending_onclose: "pending (onclose s) \<le> Suc (pending s)"
proof -
  have "pending (s\<lparr>isConnected := False\<rparr>) = pending s"
    by (simp add: pending_def live_count_def)
  then show ?thesis
    using pending_scheduleReconnect [of "updateConnectionStatus False (s\<lparr>isConnected := False\<rparr>)"]
    by (simp add: onclose_def)
qed

lemma pending_updateNotificationCount [simp]:
  "pending (updateNotificationCount c s) = pending s"
  by (simp add: pending_def updateNotificationCount_def live_count_def)

lemma timers_handleMessage [simp]: "timers (state_after (handleMessage m s)) = timers s"
proof (cases m)
  case (New_notification n)
  then show ?thesis
    by (simp add: handleNewNotification_def Let_def updateNotificationCount_def
        showNotificationToast_def playNotificationSound_def showBrowserNotification_def
        addToNotificationDropdown_def split: option.splits)
next
  case (Notification_read i)
  then show ?thesis
    by (simp add: handleNotificationRead_def Let_def updateNotificationCount_def
        removeFromNotificationDropdown_def split: option.splits)
qed (simp_all add: updateNotificationCount_def)

lemma pending_handleMessage [simp]: "pending (state_after (handleMessage m s)) = pending s"
  by (simp add: pending_def live_count_def)

lemma pending_markAsRead [simp]: "pending (markAsRead i s) = pending s"
  by (simp add: pending_def live_count_def markAsRead_def split: option.splits)

text \<open>With nothing under way, a connect call leaves one socket or at most one timer.\<close>

lemma pending_connectWebSocket:
  assumes "pending s = 0"
  shows "pending (connectWebSocket throws s) \<le> 1"
proof -
  have "\<not> socket_is_open s"
    using assms open_is_live [of s] by (auto simp: pending_def)
  moreover have "pending (s\<lparr>socket := Some (length (sockets s)),
      sockets := sockets s @ [\<lparr>url = wsUrl s, readyState = CONNECTING\<rparr>]\<rparr>) = Suc (pending s)"
    by (simp add: pending_def live_count_def)
  ultimately show ?thesis
    using assms pending_scheduleReconnect [of s] by (simp add: connectWebSocket_def)
qed

lemma pending_remove_timer:
  "k < length (timers s) \<Longrightarrow> Suc (pending (s\<lparr>timers := remove_nth k (timers s)\<rparr>)) = pending s"
  by (auto simp: pending_def live_count_def remove_nth_def)

text \<open>
  Every event keeps at most one thing under way: a socket that ends makes room for the
  one timer its \<open>close\<close> handler may set, and a timer that fires makes room for the one
  socket its connect call may construct.
\<close>

lemma step_pending:
  assumes "pending s \<le> 1" and "step e s = Some s'"
  shows "pending s' \<le> 1"
proof (cases e)
  case (Opened i)
  with assms(2) have "live s i" and s': "s' = onopen (set_readyState i OPEN s)"
    by (auto simp: live_def split: if_splits)
  from pending_kept [OF this(1), of OPEN] assms(1) show ?thesis
    by (simp add: s')
next
  case (Message i m)
  with assms show ?thesis by (auto simp: onmessage_def split: if_splits)
next
  case (Closing i)
  with assms(2) have "live s i" and s': "s' = set_readyState i CLOSING s"
    by (auto split: if_splits)
  from pending_kept [OF this(1), of CLOSING] assms(1) show ?thesis
    by (simp add: s')
next
  case (Closed i)
  with assms(2) have l: "live s i" and s': "s' = onclose (set_readyState i CLOSED s)"
    by (auto split: if_splits)
  from pending_closed [OF l] assms(1) have "pending (set_readyState i CLOSED s) = 0"
    by simp
  with pending_onclose [of "set_readyState i CLOSED s"] show ?thesis
    by (simp add: s')
next
  case (Failed i)
  with assms(2) have l: "live s i"
    and s': "s' = onclose (onerror (set_readyState i CLOSED s))"
    by (auto split: if_splits)
  from pending_closed [OF l] assms(1) have "pending (set_readyState i CLOSED s) = 0"
    by simp
  with pending_onclose [of "onerror (set_readyState i CLOSED s)"] show ?thesis
    by (simp add: s')
next
  case (Timer k throws)
  with assms(2) have k: "k < length (timers s)"
    and s': "s' = connectWebSocket throws (s\<lparr>timers := remove_nth k (timers s)\<rparr>)"
    by (auto split: if_splits)
  from pending_remove_timer [OF k] assms(1)
  have "pending (s\<lparr>timers := remove_nth k (timers s)\<rparr>) = 0" by simp
  from pending_connectWebSocket [OF this, of throws] show ?thesis
    by (simp add: s')
next
  case (Click i)
  with assms show ?thesis by auto
qed

lemma run_pending:
  "pending s \<le> 1 \<Longrightarrow> run es s = Some s' \<Longrightarrow> pending s' \<le> 1"
proof (induction es arbitrary: s)
  case Nil
  then show ?case by simp
next
  case (Cons e es)
  from Cons.prems(2) obtain s1 where s1: "step e s = Some s1" "run es s1 = Some s'"
    by (auto split: option.splits)
  from step_pending [OF Cons.prems(1) s1(1)] have "pending s1 \<le> 1" .
  then show ?case using s1(2) by (rule Cons.IH)
qed

lemma init_pending:
  assumes "constructed s"
  shows "pending (init u throws s) \<le> 1"
proof -
  from assms have "pending s = 0"
    by (simp add: constructed_def pending_def live_count_def)
  then show ?thesis
    using pending_connectWebSocket [of s throws] by (simp add: init_def)
qed

text \<open>
  Claim C3 says that a connect call is a no-op while the connection is open or
  connecting. The guard of \<open>connectWebSocket\<close> tests for OPEN only. Right after \<open>init\<close> the
  first socket is CONNECTING; a connect call in that state constructs a second socket and
  makes it \<open>this.socket\<close>, and two connections are live.
\<close>

theorem connect_while_connecting_opens_second_socket:
  "socket (init True False example_page) = Some 0 \<and>
   state_of (init True False example_page) 0 = Some CONNECTING \<and>
   length (sockets (init True False example_page)) = 1 \<and>
   connectWebSocket False (init True False example_page) \<noteq> init True False example_page \<and>
   socket (connectWebSocket False (init True False example_page)) = Some 1 \<and>
   length (sockets (connectWebSocket False (init True False example_page))) = 2 \<and>
   live_count (connectWebSocket False (init True False example_page)) = 2"
proof -
  let ?s = "init True False example_page"
  have a: "socket ?s = Some 0" "state_of ?s 0 = Some CONNECTING" "length (sockets ?s) = 1"
    by (simp_all add: init_def connectWebSocket_def socket_is_open_def example_page_def
        state_of_def)
  have b: "socket (connectWebSocket False ?s) = Some 1"
    "length (sockets (connectWebSocket False ?s)) = 2"
    "live_count (connectWebSocket False ?s) = 2"
    by (simp_all add: init_def connectWebSocket_def socket_is_open_def example_page_def
        live_count_def)
  from a(1) b(1) have "connectWebSocket False ?s \<noteq> ?s" by auto
  with a b show ?thesis by simp
qed

text \<open>
  Claim C3, as the code has it. In every state whose current socket is open a connect call
  is a no-op: it constructs no socket and returns the state unchanged, whether or not the
  constructor would throw. And in every run of the client that starts with the
  constructor and \<open>init\<close> and goes on by socket events, reconnect timers and clicks, so
  that \<open>connectWebSocket\<close> is called by \<open>init\<close> and by the timers only, at most one
  connection is live at any time.
\<close>

theorem connect_while_open_is_noop:
  "(socket_is_open s \<longrightarrow> connectWebSocket throws s = s) \<and>
   (constructed s0 \<and> run es (init u t s0) = Some s' \<longrightarrow> live_count s' \<le> 1)"
proof -
  have "live_count s' \<le> 1" if "constructed s0" "run es (init u t s0) = Some s'"
    using run_pending [OF init_pending [OF that(1)] that(2)] by (simp add: pending_def)
  then show ?thesis by (simp add: connectWebSocket_def)
qed

text \<open>
  On the connected page a connect call changes nothing. A run of the example page: the
  socket opens, receives a count, is closed; the timer fires and the second socket fails.
\<close>

theorem connect_while_open_is_noop_witness:
  "socket_is_open connected_page \<and>
   connectWebSocket False connected_page = connected_page \<and>
   connectWebSocket True connected_page = connected_page \<and>
   length (sockets (connectWebSocket False connected_page)) = 1 \<and>
   constructed example_page \<and>
   (\<exists>s'. run [Opened 0, Message 0 (Notification_count 3), Closed 0, Timer 0 False, Failed 1]
            (init True False example_page) = Some s' \<and>
         timers s' = [2000] \<and> live_count s' \<le> 1)"
proof -
  let ?es = "[Opened 0, Message 0 (Notification_count 3), Closed 0, Timer 0 False, Failed 1]"
  have a: "socket_is_open connected_page" by code_simp
  have b: "length (sockets connected_page) = 1" by code_simp
  have c: "constructed example_page" by (simp add: constructed_def example_page_def)
  have "run ?es (init True False example_page) \<noteq> None" by code_simp
  then obtain s' where r: "run ?es (init True False example_page) = Some s'" by auto
  have "timers (the (run ?es (init True False example_page))) = [2000]" by code_simp
  then have d: "timers s' = [2000]" by (simp only: r option.sel)
  have e: "live_count s' \<le> 1"
    using connect_while_open_is_noop [of connected_page False example_page ?es True False s'] c r
    by simp
  show ?thesis
    using a b c r d e
      connect_while_open_is_noop [of connected_page False example_page ?es True False s']
      connect_while_open_is_noop [of connected_page True example_page ?es True False s']
    by simp
qed

end
